theory Spec2Isabelle
  imports Main "HOL-Library.Sublist" "HOL-Library.Word"
begin

section \<open>String primitives of the Go standard library\<close>

text \<open>
  Go strings are byte sequences; they are modelled as \<open>string\<close> (a \<open>char list\<close>).
  The module identities handled by the tool are ASCII, so one \<open>char\<close> is one
  character of \<open>strings.Split(s, "")\<close>.
\<close>

text \<open>\<open>strings.Contains(s, sub)\<close>.\<close>

fun strings_Contains :: "string \<Rightarrow> string \<Rightarrow> bool" where
  "strings_Contains [] sub = (sub = [])"
| "strings_Contains (c # cs) sub = (prefix sub (c # cs) \<or> strings_Contains cs sub)"

text \<open>
  \<open>strings.Split(s, sep)\<close>: the pieces of \<open>s\<close> between the leftmost, non-overlapping
  occurrences of \<open>sep\<close>; with an empty separator the string is exploded into its
  characters.
\<close>

function split_sep :: "string \<Rightarrow> string \<Rightarrow> string list" where
  "split_sep sep [] = [[]]"
| "split_sep sep (c # cs) =
     (if sep \<noteq> [] \<and> prefix sep (c # cs)
      then [] # split_sep sep (drop (length sep) (c # cs))
      else (case split_sep sep cs of
              [] \<Rightarrow> [[c]]
            | w # ws \<Rightarrow> (c # w) # ws))"
  by pat_completeness auto
termination
  by (relation "measure (\<lambda>(sep, s). length s)") auto

definition strings_Split :: "string \<Rightarrow> string \<Rightarrow> string list" where
  "strings_Split s sep = (if sep = [] then map (\<lambda>c. [c]) s else split_sep sep s)"

text \<open>\<open>strings.ToLower\<close> on one ASCII character.\<close>

definition toLower :: "char \<Rightarrow> char" where
  "toLower c =
     (case map_of (zip ''ABCDEFGHIJKLMNOPQRSTUVWXYZ'' ''abcdefghijklmnopqrstuvwxyz'') c of
        None \<Rightarrow> c
      | Some l \<Rightarrow> l)"

definition isUpper :: "char \<Rightarrow> bool" where
  "isUpper c = (c \<in> set ''ABCDEFGHIJKLMNOPQRSTUVWXYZ'')"

definition isDigit :: "char \<Rightarrow> bool" where
  "isDigit c = (c \<in> set ''0123456789'')"

section \<open>The cache locator\<close>

text \<open>
  \<open>escapeCapitalsInModuleName\<close>: the loop over the letters of the name, appending to
  \<open>newName\<close>.
\<close>

definition escapeCapitalsInModuleName :: "string \<Rightarrow> string" where
  "escapeCapitalsInModuleName name =
     fold (\<lambda>letter newName.
             if toLower letter \<noteq> letter
             then newName @ ''!'' @ [toLower letter]
             else newName @ [letter])
          name ''''"

text \<open>
  The regular expression \<open>v\d+\.\d+\.\d+\<close> matched at the start of a string. Each
  \<open>\d+\<close> is greedy and is followed by a character that is no digit, so the match takes
  the whole run of digits each time.
\<close>

definition match_here :: "string \<Rightarrow> string option" where
  "match_here s =
     (case s of
        [] \<Rightarrow> None
      | c # r \<Rightarrow>
          if c \<noteq> CHR ''v'' then None
          else let d1 = takeWhile isDigit r; r1 = dropWhile isDigit r in
            if d1 = [] then None
            else (case r1 of
                [] \<Rightarrow> None
              | c1 # r2 \<Rightarrow>
                  if c1 \<noteq> CHR ''.'' then None
                  else let d2 = takeWhile isDigit r2; r3 = dropWhile isDigit r2 in
                    if d2 = [] then None
                    else (case r3 of
                        [] \<Rightarrow> None
                      | c2 # r4 \<Rightarrow>
                          if c2 \<noteq> CHR ''.'' then None
                          else let d3 = takeWhile isDigit r4 in
                            if d3 = [] then None
                            else Some (CHR ''v'' # d1 @ CHR ''.'' # d2 @ CHR ''.'' # d3))))"

text \<open>
  \<open>getSemVer\<close>: \<open>re.FindStringSubmatch\<close> gives the leftmost match (the expression has
  no group, so the result has length 1 and \<open>match[0]\<close> is returned), or nothing, and
  then the empty string is returned.
\<close>

fun getSemVer :: "string \<Rightarrow> string" where
  "getSemVer [] = []"
| "getSemVer (c # cs) =
     (case match_here (c # cs) of
        Some m \<Rightarrow> m
      | None \<Rightarrow> getSemVer cs)"

text \<open>
  \<open>getNameAndVersion\<close>. In the first branch the string contains the separator, so
  the split has at least two pieces (lemma \<open>split_sep_two\<close> below) and \<open>s[1]\<close> is in
  range.
\<close>

definition getNameAndVersion :: "string \<Rightarrow> string \<times> string" where
  "getNameAndVersion module =
     (if strings_Contains module ''@''
      then (let s = strings_Split module ''@'' in (s ! 0, s ! 1))
      else (let s = strings_Split module '' '' in
            if length s = 1 then (s ! 0, '''')
            else (s ! 0, getSemVer (s ! 1))))"

text \<open>
  The outcome of \<open>os.Stat\<close>, as far as the code looks at it: no error, an error that
  \<open>os.IsNotExist\<close> accepts, or another error (permission denied, not a directory,
  name too long).
\<close>

datatype stat_result = StatOk | ErrNotExist | ErrOther

text \<open>
  What the program reads from its surroundings: the \<open>GOPATH\<close> variable, the library
  functions \<open>filepath.Join\<close> and \<open>path.Join\<close>, \<open>os.Stat\<close>, \<open>os.ReadFile\<close> (\<open>None\<close>
  when it fails) and \<open>modfile.Parse\<close> (\<open>None\<close> when it fails, otherwise the
  \<open>(Mod.Path, Mod.Version)\<close> pairs of \<open>file.Require\<close>, in the order of the file).
\<close>

record env =
  gopath :: string
  filepath_Join :: "string list \<Rightarrow> string"
  path_Join :: "string list \<Rightarrow> string"
  os_Stat :: "string \<Rightarrow> stat_result"
  os_ReadFile :: "string \<Rightarrow> string option"
  modfile_Parse :: "string \<Rightarrow> string \<Rightarrow> (string \<times> string) list option"

text \<open>The test \<open>err == nil || !os.IsNotExist(err)\<close> on the result of \<open>os.Stat\<close>.\<close>

definition stat_found :: "env \<Rightarrow> string \<Rightarrow> bool" where
  "stat_found e p = (os_Stat e p = StatOk \<or> os_Stat e p \<noteq> ErrNotExist)"

definition constructFilePath :: "env \<Rightarrow> string \<Rightarrow> string \<times> bool" where
  "constructFilePath e dep =
     (let (module, version) = getNameAndVersion dep;
          srcPath = filepath_Join e [gopath e, ''src'', module] in
      if stat_found e srcPath then (srcPath, True)
      else let pkgPath = filepath_Join e [gopath e, ''pkg'', ''mod'',
                                          module @ ''@'' @ getSemVer version] in
        if stat_found e pkgPath then (pkgPath, True)
        else let fullVersionPkgPath = filepath_Join e [gopath e, ''pkg'', ''mod'',
                                                       module @ ''@'' @ version] in
          if stat_found e fullVersionPkgPath then (fullVersionPkgPath, True)
          else ('''', False))"

section \<open>The graph-mode walker (dependency-tree.go)\<close>

text \<open>
  The struct \<open>module\<close>: \<open>packages\<close> maps a requirer to the set of indices of its
  requirements, \<open>indexes\<close> maps a "name version" line to its index, \<open>unknown\<close> and
  \<open>cache\<close> are sets of lines. \<open>len(m.indexes)\<close> is the number of keys,
  \<open>card (dom (indexes m))\<close>.
\<close>

record module =
  packages :: "string \<rightharpoonup> nat set"
  indexes :: "string \<rightharpoonup> nat"
  unknown :: "string set"
  cache :: "string set"

text \<open>The state built in \<open>main\<close>: four empty maps.\<close>

definition new_module :: module where
  "new_module = \<lparr>packages = Map.empty, indexes = Map.empty, unknown = {}, cache = {}\<rparr>"

text \<open>
  The body of the loop over \<open>file.Require\<close> before the recursive call: the line gets
  the index it has or, when it has none, the next one; the index is added to the set of
  \<open>modPath\<close>, which is created when it is missing.
\<close>

definition recordRequire :: "string \<Rightarrow> string \<Rightarrow> module \<Rightarrow> module" where
  "recordRequire modPath line m =
     (let (index, m1) =
            (case indexes m line of
               Some i \<Rightarrow> (i, m)
             | None \<Rightarrow> (let i = card (dom (indexes m))
                        in (i, m\<lparr>indexes := (indexes m)(line \<mapsto> i)\<rparr>)));
          m2 = (case packages m1 modPath of
                  Some s \<Rightarrow> m1
                | None \<Rightarrow> m1\<lparr>packages := (packages m1)(modPath \<mapsto> {})\<rparr>)
      in (case packages m2 modPath of
            Some s \<Rightarrow> m2\<lparr>packages := (packages m2)(modPath \<mapsto> insert index s)\<rparr>
          | None \<Rightarrow> m2))"

text \<open>
  \<open>getModuleList\<close>. Go's \<open>int\<close> is a 64-bit machine integer: \<open>depth - 1\<close> wraps,
  and the code only tests \<open>depth == 0\<close>. The first argument bounds the nesting of the
  recursive calls (the height of the call stack); \<open>None\<close> means that the bound was
  reached. \<open>requireLoop\<close> is the loop over \<open>file.Require\<close>.
\<close>

fun getModuleList ::
    "nat \<Rightarrow> env \<Rightarrow> string \<Rightarrow> string \<Rightarrow> 64 word \<Rightarrow> module \<Rightarrow> module option"
  and requireLoop ::
    "nat \<Rightarrow> env \<Rightarrow> string \<Rightarrow> string \<Rightarrow> 64 word \<Rightarrow> (string \<times> string) list
       \<Rightarrow> module \<Rightarrow> module option"
where
  "getModuleList 0 e modPath indent depth m = None"
| "getModuleList (Suc n) e modPath indent depth m =
     (if modPath \<in> cache m then Some m
      else let m = m\<lparr>cache := insert modPath (cache m)\<rparr> in
        if depth = 0 then Some m
        else let (rawPath, modFound) =
                   constructFilePath e (escapeCapitalsInModuleName modPath) in
          if \<not> modFound then Some (m\<lparr>unknown := insert modPath (unknown m)\<rparr>)
          else let modFilePath = filepath_Join e [rawPath, ''go.mod''] in
            (case os_ReadFile e modFilePath of
               None \<Rightarrow> Some m
             | Some fileBytes \<Rightarrow>
                 (case modfile_Parse e modFilePath fileBytes of
                    None \<Rightarrow> Some m
                  | Some requires \<Rightarrow> requireLoop n e modPath indent depth requires m)))"
| "requireLoop n e modPath indent depth [] m = Some m"
| "requireLoop n e modPath indent depth (require # rest) m =
     (let line = fst require @ '' '' @ snd require in
      case getModuleList n e line (indent @ ''  '') (depth - 1)
             (recordRequire modPath line m) of
        None \<Rightarrow> None
      | Some m' \<Rightarrow> requireLoop n e modPath indent depth rest m')"

text \<open>
  The walker the spec calls unlimited: the same function without the test
  \<open>depth == 0\<close>. It is what \<open>getModuleList\<close> is compared with when it is started
  with the budget \<open>-1\<close>.
\<close>

fun getModuleList_unlimited ::
    "nat \<Rightarrow> env \<Rightarrow> string \<Rightarrow> string \<Rightarrow> module \<Rightarrow> module option"
  and requireLoop_unlimited ::
    "nat \<Rightarrow> env \<Rightarrow> string \<Rightarrow> string \<Rightarrow> (string \<times> string) list
       \<Rightarrow> module \<Rightarrow> module option"
where
  "getModuleList_unlimited 0 e modPath indent m = None"
| "getModuleList_unlimited (Suc n) e modPath indent m =
     (if modPath \<in> cache m then Some m
      else let m = m\<lparr>cache := insert modPath (cache m)\<rparr> in
        let (rawPath, modFound) =
              constructFilePath e (escapeCapitalsInModuleName modPath) in
          if \<not> modFound then Some (m\<lparr>unknown := insert modPath (unknown m)\<rparr>)
          else let modFilePath = filepath_Join e [rawPath, ''go.mod''] in
            (case os_ReadFile e modFilePath of
               None \<Rightarrow> Some m
             | Some fileBytes \<Rightarrow>
                 (case modfile_Parse e modFilePath fileBytes of
                    None \<Rightarrow> Some m
                  | Some requires \<Rightarrow> requireLoop_unlimited n e modPath indent requires m)))"
| "requireLoop_unlimited n e modPath indent [] m = Some m"
| "requireLoop_unlimited n e modPath indent (require # rest) m =
     (let line = fst require @ '' '' @ snd require in
      case getModuleList_unlimited n e line (indent @ ''  '')
             (recordRequire modPath line m) of
        None \<Rightarrow> None
      | Some m' \<Rightarrow> requireLoop_unlimited n e modPath indent rest m')"

text \<open>
  What the walker finds out about a module between marking it and looping over its
  requirements: the locator fails, or the manifest cannot be read or parsed, or it is
  parsed and has the given requirements.
\<close>

datatype lookup = NotFound | NoManifest | Manifest "(string \<times> string) list"

definition lookup_manifest :: "env \<Rightarrow> string \<Rightarrow> lookup" where
  "lookup_manifest e modPath =
     (let (rawPath, modFound) = constructFilePath e (escapeCapitalsInModuleName modPath) in
      if \<not> modFound then NotFound
      else let modFilePath = filepath_Join e [rawPath, ''go.mod''] in
        (case os_ReadFile e modFilePath of
           None \<Rightarrow> NoManifest
         | Some fileBytes \<Rightarrow>
             (case modfile_Parse e modFilePath fileBytes of
                None \<Rightarrow> NoManifest
              | Some requires \<Rightarrow> Manifest requires)))"



section \<open>Flush in graph mode\<close>

datatype failure = OsExit nat | RuntimePanic

record flush_output =
  out_packages :: "string \<rightharpoonup> nat list"
  out_indexes :: "string list"
  out_unknown :: "string list"
  out_stderr :: "string list"

text \<open>
  Go visits the entries of a map in an unspecified order. \<open>Flush\<close> therefore takes,
  for each of its three loops, the list of entries in the order in which \<open>range\<close>
  yields them; \<open>range_packages\<close> and \<open>range_indexes\<close> say that such a list
  enumerates the map of the state, each key once.
\<close>

definition range_packages :: "module \<Rightarrow> (string \<times> nat list) list \<Rightarrow> bool" where
  "range_packages m order =
     (distinct (map fst order) \<and> list_all (\<lambda>entry. distinct (snd entry)) order \<and>
      map_of (map (\<lambda>entry. (fst entry, set (snd entry))) order) = packages m)"

definition range_indexes :: "module \<Rightarrow> (string \<times> nat) list \<Rightarrow> bool" where
  "range_indexes m order = (distinct (map fst order) \<and> map_of order = indexes m)"

text \<open>
  One round of the loop over \<open>m.packages\<close>: the diagnostic line on standard error
  when the set is empty, the inner loop appending each index to \<open>packages[pkg]\<close>, and
  \<open>sort.Slice\<close>, which sorts the slice stored under \<open>pkg\<close> in place when there is one.
\<close>

definition flush_package ::
    "string \<times> nat list \<Rightarrow> (string \<rightharpoonup> nat list) \<times> string list
       \<Rightarrow> (string \<rightharpoonup> nat list) \<times> string list" where
  "flush_package entry acc =
     (let (pkg, idxs) = entry; (out, err) = acc;
          err1 = (if length idxs = 0
                  then err @ [''No dependencies found for package:  '' @ pkg]
                  else err);
          out1 = fold (\<lambda>index p. p(pkg \<mapsto> (case p pkg of None \<Rightarrow> [] | Some l \<Rightarrow> l) @ [index]))
                      idxs out;
          out2 = (case out1 pkg of None \<Rightarrow> out1 | Some l \<Rightarrow> out1(pkg \<mapsto> sort l))
      in (out2, err1))"

text \<open>
  The loop \<open>indexes[index] = pkg\<close> over \<open>m.indexes\<close>; an index outside the slice is a
  run-time panic.
\<close>

fun fill_indexes :: "(string \<times> nat) list \<Rightarrow> string list \<Rightarrow> failure + string list" where
  "fill_indexes [] arr = Inr arr"
| "fill_indexes ((pkg, index) # rest) arr =
     (if index < length arr then fill_indexes rest (arr[index := pkg])
      else Inl RuntimePanic)"

definition Flush ::
    "module \<Rightarrow> (string \<times> nat list) list \<Rightarrow> (string \<times> nat) list \<Rightarrow> string list
       \<Rightarrow> failure + flush_output" where
  "Flush m packages_order indexes_order unknown_order =
     (let (pk, err) = fold flush_package packages_order (Map.empty, []) in
      case fill_indexes indexes_order (replicate (card (dom (indexes m))) '''') of
        Inl f \<Rightarrow> Inl f
      | Inr ixs \<Rightarrow>
          Inr \<lparr>out_packages = pk, out_indexes = ixs,
               out_unknown = fold (\<lambda>u acc. acc @ [u]) unknown_order [],
               out_stderr = err\<rparr>)"

text \<open>
  The index table of a state is well formed when it is finite and its indices are the
  numbers below its size, each used by one line.
\<close>

definition index_table_ok :: "(string \<rightharpoonup> nat) \<Rightarrow> bool" where
  "index_table_ok ix =
     (finite (dom ix) \<and> inj_on ix (dom ix) \<and> ran ix = {i. i < card (dom ix)})"

section \<open>The tree-mode walker (the second source file)\<close>

record module_tree =
  tree_cache :: "string set"
  tree_writer :: string
  tree_unknown :: string


text \<open>
  \<open>writeLine\<close> and \<open>writeUnknownLine\<close>: \<open>fmt.Fprintln\<close> of the line up to the first
  \<open>" //"\<close>. The split is never empty, so index 0 is in range; \<open>indent\<close> is not used.
\<close>

definition writeLine :: "string \<Rightarrow> string \<Rightarrow> module_tree \<Rightarrow> module_tree" where
  "writeLine indent line m =
     m\<lparr>tree_writer := tree_writer m @ (strings_Split line '' //'' ! 0) @ [CHR 0x0A]\<rparr>"

definition writeUnknownLine :: "string \<Rightarrow> module_tree \<Rightarrow> module_tree" where
  "writeUnknownLine line m =
     m\<lparr>tree_unknown := tree_unknown m @ (strings_Split line '' //'' ! 0) @ [CHR 0x0A]\<rparr>"

fun getModuleList_tree ::
    "nat \<Rightarrow> env \<Rightarrow> string \<Rightarrow> string \<Rightarrow> 64 word \<Rightarrow> module_tree \<Rightarrow> module_tree option"
  and requireLoop_tree ::
    "nat \<Rightarrow> env \<Rightarrow> string \<Rightarrow> 64 word \<Rightarrow> (string \<times> string) list
       \<Rightarrow> module_tree \<Rightarrow> module_tree option"
where
  "getModuleList_tree 0 e modPath indent depth m = None"
| "getModuleList_tree (Suc n) e modPath indent depth m =
     (if depth = 0 then Some (writeLine indent modPath m)
      else if modPath \<in> tree_cache m then Some m
      else let m = m\<lparr>tree_cache := insert modPath (tree_cache m)\<rparr>;
               (rawPath, modFound) =
                 constructFilePath e (escapeCapitalsInModuleName modPath) in
        if \<not> modFound then Some (writeUnknownLine modPath m)
        else let modFilePath = filepath_Join e [rawPath, ''go.mod''];
                 m = writeLine indent modPath m in
          (case os_ReadFile e modFilePath of
             None \<Rightarrow> Some m
           | Some fileBytes \<Rightarrow>
               (case modfile_Parse e modFilePath fileBytes of
                  None \<Rightarrow> Some m
                | Some requires \<Rightarrow> requireLoop_tree n e indent depth requires m)))"
| "requireLoop_tree n e indent depth [] m = Some m"
| "requireLoop_tree n e indent depth (require # rest) m =
     (let line = fst require @ '' '' @ snd require in
      case getModuleList_tree n e line (indent @ ''  '') (depth - 1) m of
        None \<Rightarrow> None
      | Some m' \<Rightarrow> requireLoop_tree n e indent depth rest m')"

text \<open>The tree-mode walker without the test \<open>depth == 0\<close>.\<close>

fun getModuleList_tree_unlimited ::
    "nat \<Rightarrow> env \<Rightarrow> string \<Rightarrow> string \<Rightarrow> module_tree \<Rightarrow> module_tree option"
  and requireLoop_tree_unlimited ::
    "nat \<Rightarrow> env \<Rightarrow> string \<Rightarrow> (string \<times> string) list
       \<Rightarrow> module_tree \<Rightarrow> module_tree option"
where
  "getModuleList_tree_unlimited 0 e modPath indent m = None"
| "getModuleList_tree_unlimited (Suc n) e modPath indent m =
     (if modPath \<in> tree_cache m then Some m
      else let m = m\<lparr>tree_cache := insert modPath (tree_cache m)\<rparr>;
               (rawPath, modFound) =
                 constructFilePath e (escapeCapitalsInModuleName modPath) in
        if \<not> modFound then Some (writeUnknownLine modPath m)
        else let modFilePath = filepath_Join e [rawPath, ''go.mod''];
                 m = writeLine indent modPath m in
          (case os_ReadFile e modFilePath of
             None \<Rightarrow> Some m
           | Some fileBytes \<Rightarrow>
               (case modfile_Parse e modFilePath fileBytes of
                  None \<Rightarrow> Some m
                | Some requires \<Rightarrow> requireLoop_tree_unlimited n e indent requires m)))"
| "requireLoop_tree_unlimited n e indent [] m = Some m"
| "requireLoop_tree_unlimited n e indent (require # rest) m =
     (let line = fst require @ '' '' @ snd require in
      case getModuleList_tree_unlimited n e line (indent @ ''  '') m of
        None \<Rightarrow> None
      | Some m' \<Rightarrow> requireLoop_tree_unlimited n e indent rest m')"

subsection \<open>getModuleName in tree mode\<close>

text \<open>\<open>strings.TrimSpace\<close> on ASCII: tab, line feed, vertical tab, form feed, carriage
  return and space are removed at both ends.\<close>

definition isSpace :: "char \<Rightarrow> bool" where
  "isSpace c = (c \<in> set [CHR 0x09, CHR 0x0A, CHR 0x0B, CHR 0x0C, CHR 0x0D, CHR 0x20])"

definition strings_TrimSpace :: "string \<Rightarrow> string" where
  "strings_TrimSpace s = rev (dropWhile isSpace (rev (dropWhile isSpace s)))"

text \<open>Indexing a slice, \<open>xs[i]\<close>, and slicing a string, \<open>s[lo:hi]\<close>: out of range they
  panic.\<close>

definition index_at :: "'a list \<Rightarrow> nat \<Rightarrow> failure + 'a" where
  "index_at xs i = (if i < length xs then Inr (xs ! i) else Inl RuntimePanic)"

definition slice_string :: "string \<Rightarrow> int \<Rightarrow> int \<Rightarrow> failure + string" where
  "slice_string s lo hi =
     (if 0 \<le> lo \<and> lo \<le> hi \<and> hi \<le> int (length s)
      then Inr (take (nat (hi - lo)) (drop (nat lo) s))
      else Inl RuntimePanic)"

text \<open>
  The loop of \<open>getModuleName\<close> over the lines of the file: the first line that starts
  with \<open>"module "\<close> decides; without one the program prints a message and exits with
  status 1.
\<close>

fun moduleLines :: "string \<Rightarrow> string list \<Rightarrow> failure + string" where
  "moduleLines cwd [] = Inl (OsExit 1)"
| "moduleLines cwd (l # lines) =
     (let line = strings_TrimSpace l in
      if prefix ''module '' line then
        (case index_at (strings_Split line ''module '') 1 of
           Inl f \<Rightarrow> Inl f
         | Inr modAddress0 \<Rightarrow>
             (case (if strings_Contains modAddress0 [CHR 0x22]
                    then slice_string modAddress0 1 (int (length modAddress0) - 1)
                    else Inr modAddress0) of
                Inl f \<Rightarrow> Inl f
              | Inr modAddress \<Rightarrow>
                  if suffix modAddress cwd then Inr modAddress
                  else (case index_at (strings_Split cwd modAddress) 1 of
                          Inl f \<Rightarrow> Inl f
                        | Inr rest \<Rightarrow> Inr (modAddress @ rest))))
      else moduleLines cwd lines)"

definition getModuleName_tree :: "env \<Rightarrow> string \<Rightarrow> failure + string" where
  "getModuleName_tree e cwd =
     (case os_ReadFile e (path_Join e [cwd, ''go.mod'']) of
        None \<Rightarrow> Inl (OsExit 1)
      | Some fileBytes \<Rightarrow> moduleLines cwd (strings_Split fileBytes [CHR 0x0A]))"

section \<open>What the spec says, and the file systems of the examples\<close>

text \<open>The escaping of one letter, in the words of the spec: an uppercase letter becomes
  the marker \<open>!\<close> and its lowercase form, any other character stays.\<close>

definition escaped_letter :: "char \<Rightarrow> string" where
  "escaped_letter c = (if isUpper c then [CHR ''!'', toLower c] else [c])"

text \<open>The three candidate paths of the locator, in the order of the spec, for the name
  and the version that \<open>getNameAndVersion\<close> gives.\<close>

definition candidate_paths :: "env \<Rightarrow> string \<Rightarrow> string list" where
  "candidate_paths e dep =
     (let (name, version) = getNameAndVersion dep in
      [filepath_Join e [gopath e, ''src'', name],
       filepath_Join e [gopath e, ''pkg'', ''mod'', name @ ''@'' @ getSemVer version],
       filepath_Join e [gopath e, ''pkg'', ''mod'', name @ ''@'' @ version]])"

text \<open>Joining path elements with a slash, for the examples.\<close>

fun slash_join :: "string list \<Rightarrow> string" where
  "slash_join [] = ''''"
| "slash_join [p] = p"
| "slash_join (p # q # ps) = p @ ''/'' @ slash_join (q # ps)"

text \<open>
  An example file system under \<open>GOPATH = /go\<close>: \<open>stats\<close> lists the paths for which
  \<open>os.Stat\<close> does not answer "not exist", \<open>manifests\<close> lists the \<open>go.mod\<close> files that
  can be read and parsed, with their requirements.
\<close>

definition example_env ::
    "(string \<times> stat_result) list \<Rightarrow> (string \<times> (string \<times> string) list) list \<Rightarrow> env" where
  "example_env stats manifests =
     \<lparr>gopath = ''/go'', filepath_Join = slash_join, path_Join = slash_join,
      os_Stat = (\<lambda>p. case map_of stats p of None \<Rightarrow> ErrNotExist | Some r \<Rightarrow> r),
      os_ReadFile = (\<lambda>p. case map_of manifests p of None \<Rightarrow> None | Some r \<Rightarrow> Some ''(go.mod)''),
      modfile_Parse = (\<lambda>p bytes. map_of manifests p)\<rparr>"

text \<open>A module cache holding the given modules, each \<open>((name, version), requirements)\<close>
  at \<open>/go/pkg/mod/name@version\<close>.\<close>

definition cache_env :: "((string \<times> string) \<times> (string \<times> string) list) list \<Rightarrow> env" where
  "cache_env mods =
     example_env
       (map (\<lambda>md. (''/go/pkg/mod/'' @ fst (fst md) @ ''@'' @ snd (fst md), StatOk)) mods)
       (map (\<lambda>md. (''/go/pkg/mod/'' @ fst (fst md) @ ''@'' @ snd (fst md) @ ''/go.mod'',
                    snd md)) mods)"


text \<open>The diamond a \<rightarrow> b, a \<rightarrow> c, b \<rightarrow> d, c \<rightarrow> d.\<close>

definition diamond_env :: env where
  "diamond_env = cache_env
     [((''a'', ''v1.0.0''), [(''b'', ''v1.0.0''), (''c'', ''v1.0.0'')]),
      ((''b'', ''v1.0.0''), [(''d'', ''v1.0.0'')]),
      ((''c'', ''v1.0.0''), [(''d'', ''v1.0.0'')]),
      ((''d'', ''v1.0.0''), [])]"

text \<open>The chain a \<rightarrow> b \<rightarrow> c.\<close>

definition chain_env :: env where
  "chain_env = cache_env
     [((''a'', ''v1.0.0''), [(''b'', ''v1.0.0'')]),
      ((''b'', ''v1.0.0''), [(''c'', ''v1.0.0'')]),
      ((''c'', ''v1.0.0''), [])]"

text \<open>The graph a \<rightarrow> b, a \<rightarrow> c, b \<rightarrow> c, c \<rightarrow> d, where c is met first at the depth
  cutoff and then again with budget left.\<close>

definition cutoff_env :: env where
  "cutoff_env = cache_env
     [((''a'', ''v1.0.0''), [(''b'', ''v1.0.0''), (''c'', ''v1.0.0'')]),
      ((''b'', ''v1.0.0''), [(''c'', ''v1.0.0'')]),
      ((''c'', ''v1.0.0''), [(''d'', ''v1.0.0'')]),
      ((''d'', ''v1.0.0''), [])]"

text \<open>File systems for the locator: the module \<open>lib\<close> present under src and in the
  module cache; the same with a src path that \<open>os.Stat\<close> cannot examine; and a cache that
  holds a module under its pseudo-version only.\<close>

definition both_env :: env where
  "both_env = example_env [(''/go/src/lib'', StatOk), (''/go/pkg/mod/lib@v1.2.3'', StatOk)] []"

definition denied_env :: env where
  "denied_env = example_env [(''/go/src/lib'', ErrOther), (''/go/pkg/mod/lib@v1.2.3'', StatOk)] []"

definition pseudo_env :: env where
  "pseudo_env = example_env
     [(''/go/pkg/mod/github.com/foo/bar@v0.0.0-20190101000000-abcdef123456'', StatOk)] []"

text \<open>A project at \<open>/home/dev/proj\<close> whose manifest declares the module
  \<open>example.com/app\<close>.\<close>

definition project_env :: env where
  "project_env =
     (example_env [] [])\<lparr>os_ReadFile :=
        [''/home/dev/proj/go.mod'' \<mapsto>
           ''module example.com/app'' @ [CHR 0x0A] @ ''go 1.20'' @ [CHR 0x0A]]\<rparr>"

text \<open>
  A chain of \<open>N\<close> modules \<open>x\<close>, \<open>xx\<close>, \<open>xxx\<close>, ... at version \<open>v1.0.0\<close>, each present in
  the module cache and requiring the next one; the last requires nothing.
\<close>

definition chain_node :: "nat \<Rightarrow> string" where
  "chain_node i = replicate (Suc i) (CHR ''x'') @ '' v1.0.0''"

definition long_chain_env :: "nat \<Rightarrow> env" where
  "long_chain_env N =
     \<lparr>gopath = ''/go'', filepath_Join = slash_join, path_Join = slash_join,
      os_Stat = (\<lambda>p. if prefix ''/go/pkg/mod/'' p then StatOk else ErrNotExist),
      os_ReadFile = (\<lambda>p. Some ''(go.mod)''),
      modfile_Parse = (\<lambda>p bytes.
        Some (let name = takeWhile (\<lambda>c. c = CHR ''x'') (drop 12 p) in
              if length name < N then [(name @ ''x'', ''v1.0.0'')] else []))\<rparr>"

text \<open>What one round of the loop over the requirements does when the budget of the
  recursive call is 0: the edge is recorded and the requirement is marked visited.\<close>

definition mark_requirement :: "string \<Rightarrow> string \<times> string \<Rightarrow> module \<Rightarrow> module" where
  "mark_requirement modPath r m =
     (let line = fst r @ '' '' @ snd r; m1 = recordRequire modPath line m
      in m1\<lparr>cache := insert line (cache m1)\<rparr>)"

text \<open>A module cache in which \<open>a\<close> requires \<open>b\<close>, and the directory of \<open>b\<close> is present
  but holds no manifest that can be read.\<close>

definition unreadable_env :: env where
  "unreadable_env = example_env
     [(''/go/pkg/mod/a@v1.0.0'', StatOk), (''/go/pkg/mod/b@v1.0.0'', StatOk)]
     [(''/go/pkg/mod/a@v1.0.0/go.mod'', [(''b'', ''v1.0.0'')])]"

section \<open>Facts about the string primitives\<close>

lemma split_sep_nonempty: "split_sep sep s \<noteq> []"
  by (induction sep s rule: split_sep.induct) (auto split: list.splits)

lemma strings_Split_nonempty: "sep \<noteq> [] \<Longrightarrow> strings_Split s sep \<noteq> []"
  by (simp add: strings_Split_def split_sep_nonempty)

lemma contains_char: "strings_Contains s [c] \<longleftrightarrow> c \<in> set s"
  by (induction s) auto

lemma split_sep_two:
  "sep \<noteq> [] \<Longrightarrow> strings_Contains s sep \<Longrightarrow> 2 \<le> length (split_sep sep s)"
proof (induction s)
  case Nil
  then show ?case by simp
next
  case (Cons c cs)
  show ?case
  proof (cases "prefix sep (c # cs)")
    case True
    then show ?thesis
      using Cons.prems(1) split_sep_nonempty [of sep "drop (length sep) (c # cs)"]
      by (cases "split_sep sep (drop (length sep) (c # cs))") auto
  next
    case False
    then have "strings_Contains cs sep" using Cons.prems(2) by simp
    then have "2 \<le> length (split_sep sep cs)" using Cons.IH Cons.prems(1) by simp
    then show ?thesis using False by (auto split: list.splits)
  qed
qed

lemma toLower_neq_iff: "toLower c \<noteq> c \<longleftrightarrow> isUpper c"
  by (auto simp add: toLower_def isUpper_def)


lemma escape_fold:
  "fold (\<lambda>letter newName.
             if toLower letter \<noteq> letter
             then newName @ ''!'' @ [toLower letter]
             else newName @ [letter]) name acc = acc @ concat (map escaped_letter name)"
  by (induction name arbitrary: acc) (auto simp add: escaped_letter_def toLower_neq_iff)

lemma escape_concat: "escapeCapitalsInModuleName name = concat (map escaped_letter name)"
  by (simp add: escapeCapitalsInModuleName_def escape_fold)

lemma escape_Cons: "escapeCapitalsInModuleName (c # cs) = escaped_letter c @ escapeCapitalsInModuleName cs"
  by (simp add: escape_concat)

lemma escape_Nil: "escapeCapitalsInModuleName [] = []"
  by (simp add: escape_concat)







lemma split_sep_single:
  "c \<notin> set name \<Longrightarrow> c \<notin> set version \<Longrightarrow>
   split_sep [c] (name @ c # version) = [name, version]"
proof (induction name)
  case Nil
  have "split_sep [c] version = [version]" using Nil(2)
  proof (induction version)
    case Nil show ?case by simp
  next
    case (Cons x xs) then show ?case by simp
  qed
  then show ?case by simp
next
  case (Cons x xs)
  then show ?case by simp
qed

lemma getNameAndVersion_at:
  "CHR ''@'' \<notin> set name \<Longrightarrow> CHR ''@'' \<notin> set version \<Longrightarrow>
   getNameAndVersion (name @ ''@'' @ version) = (name, version)"
  by (simp add: getNameAndVersion_def strings_Split_def contains_char split_sep_single)

section \<open>The cache locator: escaping, candidates, priority\<close>

lemma stat_found_iff: "stat_found e p \<longleftrightarrow> os_Stat e p \<noteq> ErrNotExist"
  by (auto simp add: stat_found_def)

lemma constructFilePath_find:
  "constructFilePath e dep =
     (case find (\<lambda>p. os_Stat e p \<noteq> ErrNotExist) (candidate_paths e dep) of
        Some p \<Rightarrow> (p, True)
      | None \<Rightarrow> ('''', False))"
  by (simp add: constructFilePath_def candidate_paths_def stat_found_iff Let_def
           split: prod.splits)


text \<open>
  C5, as amended. The locator returns the first of its three candidate paths, in the
  order src, pkg/mod with the extracted semver, pkg/mod with the version, for which
  \<open>os.Stat\<close> does not answer "not exist", with \<open>found = true\<close>; when all three
  answer "not exist" it returns the empty path and \<open>found = false\<close>. The src path wins
  whenever it passes the test. For an identity \<open>name@version\<close> the third candidate
  carries the version as it is written. The function computes its result from the
  answers of \<open>os.Stat\<close> and changes nothing.
\<close>

theorem constructFilePath_first_candidate:
  "constructFilePath e dep =
     (case find (\<lambda>p. os_Stat e p \<noteq> ErrNotExist) (candidate_paths e dep) of
        Some p \<Rightarrow> (p, True)
      | None \<Rightarrow> ('''', False)) \<and>
   length (candidate_paths e dep) = 3 \<and>
   (os_Stat e (candidate_paths e dep ! 0) \<noteq> ErrNotExist \<longrightarrow>
      constructFilePath e dep = (candidate_paths e dep ! 0, True)) \<and>
   (CHR ''@'' \<notin> set name \<and> CHR ''@'' \<notin> set version \<longrightarrow>
      candidate_paths e (name @ ''@'' @ version) =
        [filepath_Join e [gopath e, ''src'', name],
         filepath_Join e [gopath e, ''pkg'', ''mod'', name @ ''@'' @ getSemVer version],
         filepath_Join e [gopath e, ''pkg'', ''mod'', name @ ''@'' @ version]])"
proof -
  have len: "length (candidate_paths e dep) = 3"
    by (simp add: candidate_paths_def split: prod.splits)
  have first: "os_Stat e (candidate_paths e dep ! 0) \<noteq> ErrNotExist \<longrightarrow>
      constructFilePath e dep = (candidate_paths e dep ! 0, True)"
    by (simp add: constructFilePath_find) (simp add: candidate_paths_def split: prod.splits)
  have at: "CHR ''@'' \<notin> set name \<and> CHR ''@'' \<notin> set version \<longrightarrow>
      candidate_paths e (name @ ''@'' @ version) =
        [filepath_Join e [gopath e, ''src'', name],
         filepath_Join e [gopath e, ''pkg'', ''mod'', name @ ''@'' @ getSemVer version],
         filepath_Join e [gopath e, ''pkg'', ''mod'', name @ ''@'' @ version]]"
    using getNameAndVersion_at [of name version] by (simp add: candidate_paths_def)
  show ?thesis using constructFilePath_find len first at by blast
qed

lemmas eval_locator =
  constructFilePath_def candidate_paths_def getNameAndVersion_def strings_Split_def
  match_here_def isDigit_def stat_found_def example_env_def

theorem constructFilePath_first_candidate_witness:
  "os_Stat both_env (candidate_paths both_env ''lib v1.2.3'' ! 0) \<noteq> ErrNotExist \<and>
   os_Stat both_env ''/go/pkg/mod/lib@v1.2.3'' = StatOk \<and>
   constructFilePath both_env ''lib v1.2.3'' = (''/go/src/lib'', True) \<and>
   CHR ''@'' \<notin> set ''lib'' \<and> CHR ''@'' \<notin> set ''v1.2.3'' \<and>
   candidate_paths both_env ''lib@v1.2.3'' =
     [''/go/src/lib'', ''/go/pkg/mod/lib@v1.2.3'', ''/go/pkg/mod/lib@v1.2.3'']"
  using constructFilePath_first_candidate [of both_env "''lib v1.2.3''" "''lib''" "''v1.2.3''"]
  by (simp add: both_env_def eval_locator)

theorem constructFilePath_counterexample:
  "os_Stat denied_env ''/go/src/lib'' \<noteq> StatOk \<and>
   os_Stat denied_env ''/go/pkg/mod/lib@v1.2.3'' = StatOk \<and>
   candidate_paths denied_env ''lib v1.2.3'' =
     [''/go/src/lib'', ''/go/pkg/mod/lib@v1.2.3'', ''/go/pkg/mod/lib@v1.2.3''] \<and>
   constructFilePath denied_env ''lib v1.2.3'' = (''/go/src/lib'', True)"
  by (simp add: denied_env_def eval_locator)

theorem constructFilePath_pseudo_version_not_probed:
  "os_Stat pseudo_env ''/go/pkg/mod/github.com/foo/bar@v0.0.0-20190101000000-abcdef123456'' = StatOk \<and>
   getNameAndVersion ''github.com/foo/bar v0.0.0-20190101000000-abcdef123456'' =
     (''github.com/foo/bar'', ''v0.0.0'') \<and>
   candidate_paths pseudo_env ''github.com/foo/bar v0.0.0-20190101000000-abcdef123456'' =
     [''/go/src/github.com/foo/bar'', ''/go/pkg/mod/github.com/foo/bar@v0.0.0'',
      ''/go/pkg/mod/github.com/foo/bar@v0.0.0''] \<and>
   constructFilePath pseudo_env ''github.com/foo/bar v0.0.0-20190101000000-abcdef123456'' =
     ('''', False)"
  by (simp add: pseudo_env_def eval_locator)

section \<open>getModuleName in tree mode\<close>

lemma split_sep_absent: "\<not> strings_Contains s sep \<Longrightarrow> split_sep sep s = [s]"
  by (induction s) auto

lemma strings_Split_absent: "\<not> strings_Contains s sep \<Longrightarrow> strings_Split s sep = [s]"
proof -
  assume a: "\<not> strings_Contains s sep"
  then have "sep \<noteq> []" by (cases s) auto
  then show ?thesis using a by (simp add: strings_Split_def split_sep_absent)
qed

lemma moduleLines_skip:
  "list_all (\<lambda>p. \<not> prefix ''module '' (strings_TrimSpace p)) pre \<Longrightarrow>
   moduleLines cwd (pre @ rest) = moduleLines cwd rest"
  by (induction pre) simp_all

text \<open>
  C10. When the manifest is read, its first line that starts with \<open>"module "\<close>
  declares the address \<open>modAddress\<close> (after the quotes, if any, are cut off), and \<open>cwd\<close>
  neither ends with \<open>modAddress\<close> nor contains it, then \<open>strings.Split(cwd,
  modAddress)\<close> has one element, index 1 is out of range and \<open>getModuleName\<close> panics:
  it neither returns a name nor exits with a message.
\<close>

theorem getModuleName_tree_index_panic:
  assumes "os_ReadFile e (path_Join e [cwd, ''go.mod'']) = Some fileBytes"
    and "strings_Split fileBytes [CHR 0x0A] = pre @ l # post"
    and "list_all (\<lambda>p. \<not> prefix ''module '' (strings_TrimSpace p)) pre"
    and "prefix ''module '' (strings_TrimSpace l)"
    and "index_at (strings_Split (strings_TrimSpace l) ''module '') 1 = Inr declared_address"
    and "(if strings_Contains declared_address [CHR 0x22]
          then slice_string declared_address 1 (int (length declared_address) - 1)
          else Inr declared_address) = Inr modAddress"
    and "\<not> suffix modAddress cwd"
    and "\<not> strings_Contains cwd modAddress"
  shows "getModuleName_tree e cwd = Inl RuntimePanic"
proof -
  have one: "index_at (strings_Split cwd modAddress) 1 = Inl RuntimePanic"
    using assms(8) by (simp add: strings_Split_absent index_at_def)
  have "moduleLines cwd (l # post) = Inl RuntimePanic"
    using assms(4,5,6,7) one by (simp del: index_at_def)
  then have "moduleLines cwd (pre @ l # post) = Inl RuntimePanic"
    using moduleLines_skip [OF assms(3)] by simp
  then show ?thesis using assms(1,2) by (simp add: getModuleName_tree_def)
qed

theorem getModuleName_tree_index_panic_witness:
  "os_ReadFile project_env (path_Join project_env [''/home/dev/proj'', ''go.mod'']) =
     Some (''module example.com/app'' @ [CHR 0x0A] @ ''go 1.20'' @ [CHR 0x0A]) \<and>
   strings_Split (''module example.com/app'' @ [CHR 0x0A] @ ''go 1.20'' @ [CHR 0x0A]) [CHR 0x0A] =
     [] @ ''module example.com/app'' # [''go 1.20'', ''''] \<and>
   prefix ''module '' (strings_TrimSpace ''module example.com/app'') \<and>
   index_at (strings_Split (strings_TrimSpace ''module example.com/app'') ''module '') 1 =
     Inr ''example.com/app'' \<and>
   \<not> strings_Contains ''example.com/app'' [CHR 0x22] \<and>
   \<not> suffix ''example.com/app'' ''/home/dev/proj'' \<and>
   \<not> strings_Contains ''/home/dev/proj'' ''example.com/app'' \<and>
   getModuleName_tree project_env ''/home/dev/proj'' = Inl RuntimePanic"
proof -
  have r: "os_ReadFile project_env (path_Join project_env [''/home/dev/proj'', ''go.mod'']) =
     Some (''module example.com/app'' @ [CHR 0x0A] @ ''go 1.20'' @ [CHR 0x0A])"
    by (simp add: project_env_def example_env_def)
  have s: "strings_Split (''module example.com/app'' @ [CHR 0x0A] @ ''go 1.20'' @ [CHR 0x0A])
             [CHR 0x0A] = [] @ ''module example.com/app'' # [''go 1.20'', '''']"
    by (simp add: strings_Split_def)
  have p: "list_all (\<lambda>p. \<not> prefix ''module '' (strings_TrimSpace p)) []" by simp
  have t: "strings_TrimSpace ''module example.com/app'' = ''module example.com/app''"
    by (simp add: strings_TrimSpace_def isSpace_def)
  have l: "prefix ''module '' (strings_TrimSpace ''module example.com/app'')"
    by (simp add: t)
  have i: "index_at (strings_Split (strings_TrimSpace ''module example.com/app'') ''module '') 1 =
     Inr ''example.com/app''"
    by (simp add: t strings_Split_def index_at_def)
  have q: "\<not> strings_Contains ''example.com/app'' [CHR 0x22]" by simp
  have q': "(if strings_Contains ''example.com/app'' [CHR 0x22]
          then slice_string ''example.com/app'' 1 (int (length ''example.com/app'') - 1)
          else Inr ''example.com/app'') = Inr ''example.com/app''"
    using q by simp
  have sf: "\<not> suffix ''example.com/app'' ''/home/dev/proj''"
    by (simp add: suffix_to_prefix)
  have c: "\<not> strings_Contains ''/home/dev/proj'' ''example.com/app''" by simp
  show ?thesis
    using getModuleName_tree_index_panic [OF r s p l i q' sf c] r s l i q sf c by blast
qed

section \<open>The graph-mode walker: what a run preserves\<close>

lemma recordRequire_cache [simp]: "cache (recordRequire p l m) = cache m"
  by (simp add: recordRequire_def Let_def split: option.splits)

lemma recordRequire_unknown [simp]: "unknown (recordRequire p l m) = unknown m"
  by (simp add: recordRequire_def Let_def split: option.splits)

lemma recordRequire_indexes:
  "indexes (recordRequire p l m) =
     (case indexes m l of
        Some i \<Rightarrow> indexes m
      | None \<Rightarrow> (indexes m)(l \<mapsto> card (dom (indexes m))))"
  by (simp add: recordRequire_def Let_def split: option.splits)

lemma recordRequire_packages:
  "packages (recordRequire p l m) =
     (packages m)(p \<mapsto> insert (case indexes m l of Some i \<Rightarrow> i | None \<Rightarrow> card (dom (indexes m)))
                            (case packages m p of Some s \<Rightarrow> s | None \<Rightarrow> {}))"
  by (simp add: recordRequire_def Let_def split: option.splits)

text \<open>The body of \<open>getModuleList\<close> in one equation, with the three outcomes of the
  look-up of the manifest.\<close>

lemma getModuleList_Suc:
  "getModuleList (Suc n) e x ind d m =
     (if x \<in> cache m then Some m
      else if d = 0 then Some (m\<lparr>cache := insert x (cache m)\<rparr>)
      else (case lookup_manifest e x of
              NotFound \<Rightarrow> Some (m\<lparr>cache := insert x (cache m), unknown := insert x (unknown m)\<rparr>)
            | NoManifest \<Rightarrow> Some (m\<lparr>cache := insert x (cache m)\<rparr>)
            | Manifest reqs \<Rightarrow> requireLoop n e x ind d reqs (m\<lparr>cache := insert x (cache m)\<rparr>)))"
  by (simp add: lookup_manifest_def Let_def split: prod.splits option.splits)

lemma requireLoop_Cons:
  "requireLoop n e p ind d (r # rs) m =
     (case getModuleList n e (fst r @ '' '' @ snd r) (ind @ ''  '') (d - 1)
             (recordRequire p (fst r @ '' '' @ snd r) m) of
        None \<Rightarrow> None
      | Some m' \<Rightarrow> requireLoop n e p ind d rs m')"
  by (simp add: Let_def)

lemmas [simp del] = getModuleList.simps(2) requireLoop.simps(2)






lemma getModuleList_visited:
  "x \<in> cache m \<Longrightarrow> getModuleList (Suc n) e x ind d m = Some m"
  by (simp add: getModuleList_Suc)


section \<open>The graph-mode walker returns on every finite manifest graph\<close>








section \<open>The tree-mode walker\<close>

lemma writeLine_cache [simp]: "tree_cache (writeLine ind l m) = tree_cache m"
  by (simp add: writeLine_def)

lemma writeUnknownLine_cache [simp]: "tree_cache (writeUnknownLine l m) = tree_cache m"
  by (simp add: writeUnknownLine_def)

lemma getModuleList_tree_Suc:
  "getModuleList_tree (Suc n) e x ind d m =
     (if d = 0 then Some (writeLine ind x m)
      else if x \<in> tree_cache m then Some m
      else (case lookup_manifest e x of
              NotFound \<Rightarrow> Some (writeUnknownLine x (m\<lparr>tree_cache := insert x (tree_cache m)\<rparr>))
            | NoManifest \<Rightarrow> Some (writeLine ind x (m\<lparr>tree_cache := insert x (tree_cache m)\<rparr>))
            | Manifest reqs \<Rightarrow>
                requireLoop_tree n e ind d reqs
                  (writeLine ind x (m\<lparr>tree_cache := insert x (tree_cache m)\<rparr>))))"
  by (simp add: lookup_manifest_def Let_def split: prod.splits option.splits)

lemma requireLoop_tree_Cons:
  "requireLoop_tree n e ind d (r # rs) m =
     (case getModuleList_tree n e (fst r @ '' '' @ snd r) (ind @ ''  '') (d - 1) m of
        None \<Rightarrow> None
      | Some m' \<Rightarrow> requireLoop_tree n e ind d rs m')"
  by (simp add: Let_def)

lemmas [simp del] = getModuleList_tree.simps(2) requireLoop_tree.simps(2)








section \<open>Termination and single expansion\<close>





section \<open>The budget -1 never runs out\<close>

lemma getModuleList_unlimited_Suc:
  "getModuleList_unlimited (Suc n) e x ind m =
     (if x \<in> cache m then Some m
      else (case lookup_manifest e x of
              NotFound \<Rightarrow> Some (m\<lparr>cache := insert x (cache m), unknown := insert x (unknown m)\<rparr>)
            | NoManifest \<Rightarrow> Some (m\<lparr>cache := insert x (cache m)\<rparr>)
            | Manifest reqs \<Rightarrow>
                requireLoop_unlimited n e x ind reqs (m\<lparr>cache := insert x (cache m)\<rparr>)))"
  by (simp add: lookup_manifest_def Let_def split: prod.splits option.splits)

lemma getModuleList_tree_unlimited_Suc:
  "getModuleList_tree_unlimited (Suc n) e x ind m =
     (if x \<in> tree_cache m then Some m
      else (case lookup_manifest e x of
              NotFound \<Rightarrow> Some (writeUnknownLine x (m\<lparr>tree_cache := insert x (tree_cache m)\<rparr>))
            | NoManifest \<Rightarrow> Some (writeLine ind x (m\<lparr>tree_cache := insert x (tree_cache m)\<rparr>))
            | Manifest reqs \<Rightarrow>
                requireLoop_tree_unlimited n e ind reqs
                  (writeLine ind x (m\<lparr>tree_cache := insert x (tree_cache m)\<rparr>))))"
  by (simp add: lookup_manifest_def Let_def split: prod.splits option.splits)

lemmas [simp del] = getModuleList_unlimited.simps(2) getModuleList_tree_unlimited.simps(2)

lemma budget_pred:
  fixes d :: "64 word"
  assumes "n < unat d"
  shows "n \<le> unat (d - 1)"
proof -
  have "d \<noteq> 0" using assms by auto
  then have "unat (d - 1) = unat d - 1" by (simp add: unat_minus_one)
  then show ?thesis using assms by simp
qed

lemma getModuleList_budget_unused:
  "n \<le> unat d \<Longrightarrow> getModuleList n e x ind d m = getModuleList_unlimited n e x ind m"
proof (induction n arbitrary: x ind d m)
  case 0
  show ?case by simp
next
  case (Suc n)
  have loop: "requireLoop n e p i d reqs s = requireLoop_unlimited n e p i reqs s"
    for p i reqs s
  proof (induction reqs arbitrary: s)
    case Nil
    show ?case by simp
  next
    case (Cons r rs)
    have "n \<le> unat (d - 1)" using Suc.prems by (simp add: budget_pred)
    then show ?case using Suc.IH Cons by (simp add: requireLoop_Cons Let_def split: option.splits)
  qed
  have "d \<noteq> 0" using Suc.prems by auto
  then show ?case
    by (simp add: getModuleList_Suc getModuleList_unlimited_Suc loop split: lookup.splits)
qed

lemma getModuleList_tree_budget_unused:
  "n \<le> unat d \<Longrightarrow> getModuleList_tree n e x ind d m = getModuleList_tree_unlimited n e x ind m"
proof (induction n arbitrary: x ind d m)
  case 0
  show ?case by simp
next
  case (Suc n)
  have loop: "requireLoop_tree n e i d reqs s = requireLoop_tree_unlimited n e i reqs s"
    for i reqs s
  proof (induction reqs arbitrary: s)
    case Nil
    show ?case by simp
  next
    case (Cons r rs)
    have "n \<le> unat (d - 1)" using Suc.prems by (simp add: budget_pred)
    then show ?case using Suc.IH Cons by (simp add: requireLoop_tree_Cons Let_def split: option.splits)
  qed
  have "d \<noteq> 0" using Suc.prems by auto
  then show ?case
    by (simp add: getModuleList_tree_Suc getModuleList_tree_unlimited_Suc loop
             split: lookup.splits)
qed

section \<open>A chain of any length\<close>

lemma escape_no_upper:
  "list_all (\<lambda>c. \<not> isUpper c) s \<Longrightarrow> escapeCapitalsInModuleName s = s"
  by (induction s) (simp_all add: escape_Nil escape_Cons escaped_letter_def)

lemma getNameAndVersion_space:
  "CHR ''@'' \<notin> set name \<Longrightarrow> CHR ''@'' \<notin> set version \<Longrightarrow>
   CHR '' '' \<notin> set name \<Longrightarrow> CHR '' '' \<notin> set version \<Longrightarrow>
   getNameAndVersion (name @ '' '' @ version) = (name, getSemVer version)"
  by (simp add: getNameAndVersion_def strings_Split_def contains_char split_sep_single)

lemma chain_lookup:
  "lookup_manifest (long_chain_env N) (chain_node i) =
     Manifest (if Suc i < N then [(replicate (Suc (Suc i)) (CHR ''x''), ''v1.0.0'')] else [])"
proof -
  let ?name = "replicate (Suc i) (CHR ''x'')"
  have esc: "escapeCapitalsInModuleName (chain_node i) = chain_node i"
    by (rule escape_no_upper) (simp add: chain_node_def isUpper_def list_all_iff)
  have sv: "getSemVer ''v1.0.0'' = ''v1.0.0''" by (simp add: match_here_def isDigit_def)
  have "getNameAndVersion (?name @ '' '' @ ''v1.0.0'') = (?name, getSemVer ''v1.0.0'')"
    by (rule getNameAndVersion_space) simp_all
  then have nv: "getNameAndVersion (chain_node i) = (?name, ''v1.0.0'')"
    by (simp add: sv chain_node_def del: getSemVer.simps)
  have loc: "constructFilePath (long_chain_env N) (chain_node i) =
               (''/go/pkg/mod/'' @ ?name @ ''@v1.0.0'', True)"
    by (simp add: constructFilePath_def nv match_here_def isDigit_def stat_found_def
          long_chain_env_def)
  have tw: "takeWhile (\<lambda>c. c = CHR ''x'') (?name @ ''@v1.0.0/go.mod'') = ?name"
    by (induction i) simp_all
  have app: "?name @ ''x'' = replicate (Suc (Suc i)) (CHR ''x'')"
    by (simp add: replicate_append_same)
  show ?thesis
    using tw app
    by (simp add: lookup_manifest_def esc loc) (simp add: long_chain_env_def Let_def)
qed

lemma chain_node_inj: "chain_node i = chain_node j \<longleftrightarrow> i = j"
proof
  assume "chain_node i = chain_node j"
  then have "length (chain_node i) = length (chain_node j)" by simp
  then show "i = j" by (simp add: chain_node_def)
qed simp

lemma chain_line:
  "CHR ''x'' # CHR ''x'' # replicate i (CHR ''x'') @ '' v1.0.0'' = chain_node (Suc i)"
  by (simp add: chain_node_def)

lemma chain_walk:
  "i < N \<Longrightarrow> N - i < n \<Longrightarrow> chain_node ` {i..<N} \<inter> cache m = {} \<Longrightarrow>
   \<exists>m'. getModuleList_unlimited n (long_chain_env N) (chain_node i) ind m = Some m' \<and>
        cache m' = cache m \<union> chain_node ` {i..<N}"
proof (induction n arbitrary: i ind m)
  case 0
  then show ?case by simp
next
  case (Suc n)
  have "chain_node i \<in> chain_node ` {i..<N}" using Suc.prems(1) by simp
  then have fresh: "chain_node i \<notin> cache m" using Suc.prems(3) by blast
  let ?m1 = "m\<lparr>cache := insert (chain_node i) (cache m)\<rparr>"
  show ?case
  proof (cases "Suc i < N")
    case False
    then have "{i..<N} = {i}" using Suc.prems(1) by auto
    then show ?thesis using fresh False
      by (simp add: getModuleList_unlimited_Suc chain_lookup)
  next
    case True
    let ?m2 = "recordRequire (chain_node i) (chain_node (Suc i)) ?m1"
    have "{Suc i..<N} \<subseteq> {i..<N}" by auto
    then have "chain_node ` {Suc i..<N} \<inter> cache m = {}" using Suc.prems(3) by blast
    moreover have "chain_node i \<notin> chain_node ` {Suc i..<N}" by (auto simp add: chain_node_inj)
    ultimately have "chain_node ` {Suc i..<N} \<inter> cache ?m2 = {}" by simp
    moreover have "N - Suc i < n" using Suc.prems(2) True by simp
    ultimately obtain m' where
      run: "getModuleList_unlimited n (long_chain_env N) (chain_node (Suc i)) (ind @ ''  '') ?m2 = Some m'"
      and c: "cache m' = cache ?m2 \<union> chain_node ` {Suc i..<N}"
      using Suc.IH [OF True] by blast
    have "{i..<N} = insert i {Suc i..<N}" using Suc.prems(1) by auto
    then have "cache m' = cache m \<union> chain_node ` {i..<N}" using c by auto
    then show ?thesis using fresh True run
      by (simp add: getModuleList_unlimited_Suc chain_lookup chain_line Let_def)
  qed
qed

lemma unat_minus_one_64: "unat (- 1 :: 64 word) = 2 ^ 64 - 1"
  by (simp add: unsigned_minus_1_eq_mask mask_eq_exp_minus_1)

text \<open>
  C3. As long as the nesting of the calls stays within the budget read as an unsigned
  64-bit number, the test \<open>depth == 0\<close> never succeeds and the walker does what the
  walker without that test does. The budget \<open>-1\<close> is \<open>2^64 - 1\<close> as an unsigned
  number, so with it the test never succeeds while fewer than \<open>2^64\<close> calls are nested;
  each level of nesting marks a new identity, so that covers every manifest graph a
  file system can hold. Both modes.
\<close>

theorem unlimited_budget_never_exhausted:
  "(n \<le> unat d \<longrightarrow>
      getModuleList n e x ind d m = getModuleList_unlimited n e x ind m \<and>
      getModuleList_tree n e x ind d t = getModuleList_tree_unlimited n e x ind t) \<and>
   (n < 2 ^ 64 \<longrightarrow>
      getModuleList n e x ind (- 1) m = getModuleList_unlimited n e x ind m \<and>
      getModuleList_tree n e x ind (- 1) t = getModuleList_tree_unlimited n e x ind t)"
proof -
  have "n < 2 ^ 64 \<longrightarrow> n \<le> unat (- 1 :: 64 word)" by (simp add: unat_minus_one_64)
  then show ?thesis
    using getModuleList_budget_unused getModuleList_tree_budget_unused by blast
qed

theorem unlimited_budget_never_exhausted_witness:
  "(51 :: nat) \<le> unat (- 1 :: 64 word) \<and> (51 :: nat) < 2 ^ 64 \<and>
   (\<exists>m'. getModuleList 51 (long_chain_env 50) (chain_node 0) '''' (- 1) new_module = Some m' \<and>
         cache m' = chain_node ` {0..<50} \<and> card (cache m') = 50)"
proof -
  have a: "(51 :: nat) \<le> unat (- 1 :: 64 word)" by (simp add: unat_minus_one_64)
  have b: "(51 :: nat) < 2 ^ 64" by simp
  obtain m' where
    run: "getModuleList_unlimited 51 (long_chain_env 50) (chain_node 0) '''' new_module = Some m'"
    and c: "cache m' = cache new_module \<union> chain_node ` {0..<50}"
    using chain_walk [of 0 50 51 new_module "''''"] by (auto simp add: new_module_def)
  have "inj_on chain_node {0..<50}" by (simp add: inj_on_def chain_node_inj)
  then have "card (chain_node ` {0..<50}) = 50" by (simp add: card_image)
  then have "cache m' = chain_node ` {0..<50} \<and> card (cache m') = 50"
    using c by (simp add: new_module_def)
  moreover have
    "getModuleList 51 (long_chain_env 50) (chain_node 0) '''' (- 1) new_module = Some m'"
    using unlimited_budget_never_exhausted
            [of 51 "- 1" "long_chain_env 50" "chain_node 0" "''''" new_module] a run
    by simp
  ultimately show ?thesis using a b by blast
qed

end
